theory Spec2Isabelle
  imports Main "HOL-Library.Sublist"
begin

section \<open>Python strings\<close>

text \<open>
  The download router of \<^verbatim>\<open>downloader-links-secure-token-stats-raw.py\<close> works on
  Python \<^verbatim>\<open>str\<close> values (sequences of code points) and on \<^verbatim>\<open>bytes\<close>.
  The functions that only search a URL for ASCII texts and patterns take it as a
  \<^typ>\<open>string\<close>: one \<^typ>\<open>char\<close> per code point, which covers the code points below
  256 (ASCII and Latin-1); nothing in them can raise. The functions that hand the URL
  to \<^verbatim>\<open>urllib.parse\<close>, and text decoded from bytes, can meet any code point and
  take an \<^typ>\<open>int list\<close>, one code point each, further down.

  \<^verbatim>\<open>needle in hay\<close> is \<^const>\<open>sublist\<close>, \<^verbatim>\<open>hay.startswith(needle)\<close> is
  \<^const>\<open>prefix\<close>.
\<close>

definition lower_char :: "char \<Rightarrow> char" where
  \<comment> \<open>\<^verbatim>\<open>str.lower\<close> on one code point below 256: A-Z and the Latin-1 capitals
      (U+00C0 to U+00DE without the multiplication sign U+00D7) move up by 32.\<close>
  "lower_char c =
     (let n = (of_char c :: int) in
      if (65 \<le> n \<and> n \<le> 90) \<or> (192 \<le> n \<and> n \<le> 222 \<and> n \<noteq> 215)
      then char_of (n + 32) else c)"

definition lower :: "string \<Rightarrow> string" where
  "lower s = map lower_char s"

definition is_space :: "char \<Rightarrow> bool" where
  \<comment> \<open>\<^verbatim>\<open>str.isspace\<close> below 256: TAB, LF, VT, FF, CR, the separators U+001C to U+001F,
      the space, U+0085 and the no-break space U+00A0.\<close>
  "is_space c =
     (let n = (of_char c :: int) in
      (9 \<le> n \<and> n \<le> 13) \<or> (28 \<le> n \<and> n \<le> 32) \<or> n = 133 \<or> n = 160)"

definition strip :: "string \<Rightarrow> string" where
  \<comment> \<open>\<^verbatim>\<open>str.strip()\<close>: white space removed at both ends.\<close>
  "strip s = rev (dropWhile is_space (rev (dropWhile is_space s)))"

section \<open>The regular expressions of the Google Drive rewrite\<close>

text \<open>
  The three patterns have one shape: a fixed run of positions, each allowing one
  character or one of a few, followed by the group \<^verbatim>\<open>([a-zA-Z0-9_-]+)\<close>.
  \<^verbatim>\<open>re.search\<close> returns the leftmost match, and the group is greedy.
\<close>

definition id_char :: "char \<Rightarrow> bool" where
  \<comment> \<open>the class \<^verbatim>\<open>[a-zA-Z0-9_-]\<close>\<close>
  "id_char c =
     (let n = (of_char c :: int) in
      (97 \<le> n \<and> n \<le> 122) \<or> (65 \<le> n \<and> n \<le> 90) \<or> (48 \<le> n \<and> n \<le> 57)
      \<or> c = CHR ''_'' \<or> c = CHR ''-'')"

fun match_here :: "char list list \<Rightarrow> string \<Rightarrow> string option" where
  \<comment> \<open>the fixed part matched at the start of the text; the rest of the text is returned\<close>
  "match_here [] s = Some s"
| "match_here (cs # p) [] = None"
| "match_here (cs # p) (c # s) = (if c \<in> set cs then match_here p s else None)"

fun re_search_id :: "char list list \<Rightarrow> string \<Rightarrow> string option" where
  \<comment> \<open>\<^verbatim>\<open>m = re.search(p + '([a-zA-Z0-9_-]+)', s)\<close>, then \<^verbatim>\<open>m.group(1)\<close>;
      \<^const>\<open>None\<close> when there is no match\<close>
  "re_search_id p [] = None"
| "re_search_id p (c # s) =
     (case match_here p (c # s) of
        None \<Rightarrow> re_search_id p s
      | Some r \<Rightarrow>
          (if takeWhile id_char r \<noteq> [] then Some (takeWhile id_char r)
           else re_search_id p s))"

definition literal :: "string \<Rightarrow> char list list" where
  "literal s = map (\<lambda>c. [c]) s"

definition re_file_d :: "char list list" where
  \<comment> \<open>\<^verbatim>\<open>/file/d/\<close>\<close>
  "re_file_d = literal ''/file/d/''"

definition re_open_id :: "char list list" where
  \<comment> \<open>\<^verbatim>\<open>/open\?id=\<close>\<close>
  "re_open_id = literal ''/open?id=''"

definition re_any_id :: "char list list" where
  \<comment> \<open>\<^verbatim>\<open>[?&]id=\<close>\<close>
  "re_any_id = ''?&'' # literal ''id=''"

definition re_match_bare_id :: "string \<Rightarrow> bool" where
  \<comment> \<open>\<^verbatim>\<open>re.match(r'^[a-zA-Z0-9_-]+$', s)\<close>: a non-empty run of the class up to the end
      of the text; \<^verbatim>\<open>$\<close> also matches just before a line feed that ends the text.\<close>
  "re_match_bare_id s =
     (takeWhile id_char s \<noteq> [] \<and>
      (dropWhile id_char s = [] \<or> dropWhile id_char s = [CHR 0x0A]))"

section \<open>Google Drive links\<close>



definition extract_gdrive_file_id :: "string \<Rightarrow> string option" where
  "extract_gdrive_file_id input_str0 =
     (let input_str = strip input_str0 in
      if sublist ''http'' (lower input_str) \<or> sublist ''drive.google.com'' (lower input_str)
      then
        (case re_search_id re_file_d input_str of
           Some i \<Rightarrow> Some i
         | None \<Rightarrow>
            (case re_search_id re_open_id input_str of
               Some i \<Rightarrow> Some i
             | None \<Rightarrow>
                (case re_search_id re_any_id input_str of
                   Some i \<Rightarrow> Some i
                 | None \<Rightarrow> None)))
      else if re_match_bare_id input_str \<and> length input_str > 10 then Some input_str
      else None)"

section \<open>Bytes and their decoding\<close>

text \<open>
  A \<^verbatim>\<open>bytes\<close> value is a list of 8-bit characters, so that a signature such as
  \<^verbatim>\<open>b'PAR1'\<close> is written \<open>''PAR1''\<close>. Decoded text is a list of code points.

  \<^verbatim>\<open>bytes.decode('utf-8', errors=...)\<close> is the decoder of CPython. At each position
  it reads one code point, or reports a range of bytes that is not UTF-8: the lead byte
  alone, or the lead byte with the continuation bytes accepted so far, or (when the
  data ends inside a sequence that was valid so far) everything up to the end. Overlong
  forms, the surrogates U+D800 to U+DFFF and values above U+10FFFF are rejected at the
  second byte. The handler \<^verbatim>\<open>strict\<close> raises at the first such range, \<^verbatim>\<open>ignore\<close>
  drops the range and goes on after it, \<^verbatim>\<open>replace\<close> puts U+FFFD for it.
\<close>

type_synonym bytes = "char list"

datatype utf8_step =
    Decoded int nat  \<comment> \<open>the code point, and how many continuation bytes it took\<close>
  | Invalid nat      \<comment> \<open>the lead byte and this many bytes after it are not UTF-8\<close>
  | Truncated        \<comment> \<open>the data ends inside a sequence\<close>

definition is_cont :: "int \<Rightarrow> bool" where
  "is_cont b = (128 \<le> b \<and> b < 192)"

definition cp2 :: "int \<Rightarrow> int \<Rightarrow> int" where
  "cp2 b0 b1 = (b0 - 192) * 64 + (b1 - 128)"

definition cp3 :: "int \<Rightarrow> int \<Rightarrow> int \<Rightarrow> int" where
  "cp3 b0 b1 b2 = (b0 - 224) * 4096 + (b1 - 128) * 64 + (b2 - 128)"

definition cp4 :: "int \<Rightarrow> int \<Rightarrow> int \<Rightarrow> int \<Rightarrow> int" where
  "cp4 b0 b1 b2 b3 = (b0 - 240) * 262144 + (b1 - 128) * 4096 + (b2 - 128) * 64 + (b3 - 128)"

fun utf8_next :: "int \<Rightarrow> int list \<Rightarrow> utf8_step" where
  \<comment> \<open>the lead byte and the bytes after it\<close>
  "utf8_next b0 bs =
     (if b0 < 128 then Decoded b0 0
      else if b0 < 194 then Invalid 0
      else if b0 < 224 then
        (case bs of
           [] \<Rightarrow> Truncated
         | b1 # _ \<Rightarrow>
             if is_cont b1 then Decoded (cp2 b0 b1) 1 else Invalid 0)
      else if b0 < 240 then
        (case bs of
           [] \<Rightarrow> Truncated
         | b1 # bs1 \<Rightarrow>
             if \<not> is_cont b1 \<or> (if b1 < 160 then b0 = 224 else b0 = 237) then Invalid 0
             else
               (case bs1 of
                  [] \<Rightarrow> Truncated
                | b2 # _ \<Rightarrow>
                    if is_cont b2 then Decoded (cp3 b0 b1 b2) 2 else Invalid 1))
      else if b0 < 245 then
        (case bs of
           [] \<Rightarrow> Truncated
         | b1 # bs1 \<Rightarrow>
             if \<not> is_cont b1 \<or> (if b1 < 144 then b0 = 240 else b0 = 244) then Invalid 0
             else
               (case bs1 of
                  [] \<Rightarrow> Truncated
                | b2 # bs2 \<Rightarrow>
                    if \<not> is_cont b2 then Invalid 1
                    else
                      (case bs2 of
                         [] \<Rightarrow> Truncated
                       | b3 # _ \<Rightarrow>
                           if is_cont b3 then Decoded (cp4 b0 b1 b2 b3) 3
                           else Invalid 2)))
      else Invalid 0)"

fun utf8_ignore :: "int list \<Rightarrow> int list" where
  "utf8_ignore [] = []"
| "utf8_ignore (b # bs) =
     (case utf8_next b bs of
        Decoded c k \<Rightarrow> c # utf8_ignore (drop k bs)
      | Invalid k \<Rightarrow> utf8_ignore (drop k bs)
      | Truncated \<Rightarrow> [])"

fun utf8_strict :: "int list \<Rightarrow> int list option" where
  "utf8_strict [] = Some []"
| "utf8_strict (b # bs) =
     (case utf8_next b bs of
        Decoded c k \<Rightarrow>
          (case utf8_strict (drop k bs) of None \<Rightarrow> None | Some cs \<Rightarrow> Some (c # cs))
      | Invalid k \<Rightarrow> None
      | Truncated \<Rightarrow> None)"

definition decode_ignore :: "bytes \<Rightarrow> int list" where
  \<comment> \<open>\<^verbatim>\<open>b.decode('utf-8', errors='ignore')\<close>\<close>
  "decode_ignore b = utf8_ignore (map of_char b)"

definition decode_strict :: "bytes \<Rightarrow> int list option" where
  \<comment> \<open>\<^verbatim>\<open>b.decode('utf-8', errors='strict')\<close>; \<^const>\<open>None\<close> for UnicodeDecodeError\<close>
  "decode_strict b = utf8_strict (map of_char b)"

section \<open>Decoded text\<close>

definition cps :: "string \<Rightarrow> int list" where
  \<comment> \<open>a literal, read as code points\<close>
  "cps s = map of_char s"

definition lower_cp :: "int \<Rightarrow> int list" where
  \<comment> \<open>\<^verbatim>\<open>str.lower\<close> on one code point. Below 256 as \<^const>\<open>lower_char\<close>. Two code points
      above have a lowercase form with an ASCII letter: U+0130 gives i followed by
      U+0307, the Kelvin sign U+212A gives k. Every other cased letter lies above U+00FF
      and its lowercase form is a single code point above U+007F that is not white
      space; such a letter is left as it is, which no test of the classifier can tell
      from its lowercase form.\<close>
  "lower_cp c =
     (if (65 \<le> c \<and> c \<le> 90) \<or> (192 \<le> c \<and> c \<le> 222 \<and> c \<noteq> 215) then [c + 32]
      else if c = 0x130 then [0x69, 0x307]
      else if c = 0x212A then [0x6B]
      else [c])"

definition lower_text :: "int list \<Rightarrow> int list" where
  "lower_text t = concat (map lower_cp t)"

definition is_space_cp :: "int \<Rightarrow> bool" where
  \<comment> \<open>\<^verbatim>\<open>str.isspace\<close> on any code point\<close>
  "is_space_cp c =
     ((9 \<le> c \<and> c \<le> 13) \<or> (28 \<le> c \<and> c \<le> 32) \<or> c = 0x85 \<or> c = 0xA0 \<or> c = 0x1680
      \<or> (0x2000 \<le> c \<and> c \<le> 0x200A) \<or> c = 0x2028 \<or> c = 0x2029 \<or> c = 0x202F
      \<or> c = 0x205F \<or> c = 0x3000)"

definition strip_text :: "int list \<Rightarrow> int list" where
  "strip_text t = rev (dropWhile is_space_cp (rev (dropWhile is_space_cp t)))"

section \<open>File type from the first bytes\<close>

definition text_start :: "bytes \<Rightarrow> int list" where
  \<comment> \<open>\<^verbatim>\<open>file_bytes[:500].decode('utf-8', errors='ignore').lower().strip()\<close>\<close>
  "text_start file_bytes = strip_text (lower_text (decode_ignore (take 500 file_bytes)))"

definition html_start :: "int list \<Rightarrow> bool" where
  \<comment> \<open>the test made on \<^verbatim>\<open>text_start\<close>\<close>
  "html_start t =
     (prefix (cps ''<!doctype'') t \<or> prefix (cps ''<html'') t
      \<or> sublist (cps ''<html'') (take 200 t))"

definition json_start :: "int list \<Rightarrow> bool" where
  \<comment> \<open>\<^verbatim>\<open>first_char = text_sample.strip()[0] if text_sample.strip() else ''\<close>, then
      \<^verbatim>\<open>first_char in ('{', '[')\<close>\<close>
  "json_start t =
     (case strip_text t of
        [] \<Rightarrow> False
      | first_char # _ \<Rightarrow> first_char = 0x7B \<or> first_char = 0x5B)"

definition first_line :: "int list \<Rightarrow> int list" where
  \<comment> \<open>\<^verbatim>\<open>text_sample.split('\n')[0].split('\r')[0]\<close>\<close>
  "first_line t = takeWhile (\<lambda>c. c \<noteq> 13) (takeWhile (\<lambda>c. c \<noteq> 10) t)"

definition detect_file_type_from_bytes :: "bytes \<Rightarrow> string option" where
  \<comment> \<open>Nothing inside the first \<^verbatim>\<open>try\<close> can raise (the decoding ignores errors), so its
      \<^verbatim>\<open>except: pass\<close> is never taken. A UnicodeDecodeError of the strict decoding is
      caught and gives \<^const>\<open>None\<close>.\<close>
  "detect_file_type_from_bytes file_bytes =
     (if length file_bytes < 20 then None
      else if html_start (text_start file_bytes) then Some ''html_error''
      else if take 4 file_bytes = ''PAR1''
              \<or> drop (length file_bytes - 4) file_bytes = ''PAR1'' then Some ''parquet''
      else if sublist ''DUCK'' (take 20 file_bytes) then Some ''duckdb''
      else if sublist ''SQLite format 3'' (take 16 file_bytes) then Some ''duckdb''
      else
        (case decode_strict (take 2048 file_bytes) of
           None \<Rightarrow> None
         | Some text_sample \<Rightarrow>
             if json_start text_sample then Some ''json''
             else if 10 \<notin> set text_sample \<and> 13 \<notin> set text_sample then Some ''txt''
             else
               let pipe_count = count_list (first_line text_sample) 0x7C;
                   tab_count = count_list (first_line text_sample) 9;
                   comma_count = count_list (first_line text_sample) 0x2C
               in if pipe_count \<ge> 2 then Some ''pipe''
                  else if tab_count \<ge> 2 then Some ''tsv''
                  else if comma_count \<ge> 2 then Some ''csv''
                  else Some ''txt''))"

section \<open>GitHub links and the proxy decision\<close>


definition is_github_url :: "string \<Rightarrow> bool" where
  "is_github_url url =
     (let url_lower = lower url in
      sublist ''github.com'' url_lower \<or> sublist ''raw.githubusercontent.com'' url_lower)"


definition needs_proxy :: "string \<Rightarrow> bool \<Rightarrow> bool" where
  "needs_proxy url is_private =
     (let url_lower = lower url in
      if is_private then is_github_url url_lower
      else if sublist ''github.com'' url_lower \<and> sublist ''/releases/'' url_lower then True
      else if sublist ''drive.google.com'' url_lower
              \<or> sublist ''drive.usercontent.google.com'' url_lower then True
      else if sublist ''dropbox.com'' url_lower then True
      else False)"

datatype proxy_decision = NoProxy | PublicProxy | PrivateProxy

definition fetch_route :: "string \<Rightarrow> bool \<Rightarrow> proxy_decision" where
  \<comment> \<open>how \<^verbatim>\<open>import_via_sharelink\<close> reads the answer of \<^const>\<open>needs_proxy\<close>:
      \<^verbatim>\<open>if is_private and is_github_url(data_url)\<close> the private proxy,
      \<^verbatim>\<open>elif use_proxy\<close> the public proxy, \<^verbatim>\<open>else\<close> a direct fetch\<close>
  "fetch_route data_url is_private =
     (let use_proxy = needs_proxy data_url is_private in
      if is_private \<and> is_github_url data_url then PrivateProxy
      else if use_proxy then PublicProxy
      else NoProxy)"

section \<open>The URL library\<close>

text \<open>
  \<^verbatim>\<open>urllib.parse\<close> works on \<^verbatim>\<open>str\<close> values, which can hold any code point, a lone
  surrogate included: a \<^verbatim>\<open>str\<close> is a list of code points here, and a literal
  \<^verbatim>\<open>'abc'\<close> is \<open>cps ''abc''\<close>. The functions raise \<^verbatim>\<open>ValueError\<close> for an
  authority they refuse and \<^verbatim>\<open>UnicodeEncodeError\<close> for text that UTF-8 cannot encode;
  an index into an empty list raises \<^verbatim>\<open>IndexError\<close>.

  The library is modelled in two releases, CPython 3.11.10 and CPython 3.12.3 (the
  Ubuntu build), which differ in three places: the list \<^verbatim>\<open>uses_netloc\<close>, the check of
  an authority with square brackets, and the condition under which \<^verbatim>\<open>urlunsplit\<close>
  writes \<^verbatim>\<open>//\<close>. Two functions of other modules are parameters: \<open>ip_literal\<close> says
  whether \<^verbatim>\<open>_check_bracketed_host\<close> accepts a host (an IPv6 or IPvFuture literal, by
  the \<^verbatim>\<open>ipaddress\<close> module), and \<open>nfkc\<close> is \<^verbatim>\<open>unicodedata.normalize('NFKC', _)\<close>.
\<close>

type_synonym str = "int list"

datatype error = ValueError | UnicodeEncodeError | IndexError

datatype release = CPython_3_11 | CPython_3_12

record urllib =
  release :: release
  ip_literal :: "str \<Rightarrow> bool"
  nfkc :: "str \<Rightarrow> str"

definition urllib_of :: "release \<Rightarrow> urllib" where
  \<comment> \<open>a library for URLs whose authority is ASCII and has no square bracket, where
      neither parameter is consulted: no host is accepted and nothing is normalised\<close>
  "urllib_of r = \<lparr>release = r, ip_literal = (\<lambda>h. False), nfkc = (\<lambda>s. s)\<rparr>"

definition before :: "int \<Rightarrow> str \<Rightarrow> str" where
  \<comment> \<open>\<^verbatim>\<open>s.partition(c)[0]\<close>: the text in front of the first \<open>c\<close>, all of it without one\<close>
  "before c s = takeWhile (\<lambda>x. x \<noteq> c) s"

definition after :: "int \<Rightarrow> str \<Rightarrow> str" where
  \<comment> \<open>\<^verbatim>\<open>s.partition(c)[2]\<close>: the text behind the first \<open>c\<close>, empty without one\<close>
  "after c s = drop 1 (dropWhile (\<lambda>x. x \<noteq> c) s)"

definition after_last :: "int \<Rightarrow> str \<Rightarrow> str" where
  \<comment> \<open>\<^verbatim>\<open>s.rpartition(c)[2]\<close>: the text behind the last \<open>c\<close>, all of it without one\<close>
  "after_last c s = rev (takeWhile (\<lambda>x. x \<noteq> c) (rev s))"

definition c0_or_space :: "int \<Rightarrow> bool" where
  \<comment> \<open>\<^verbatim>\<open>_WHATWG_C0_CONTROL_OR_SPACE\<close>: U+0000 to U+0020\<close>
  "c0_or_space c = (0 \<le> c \<and> c \<le> 32)"

definition unsafe_char :: "int \<Rightarrow> bool" where
  \<comment> \<open>\<^verbatim>\<open>_UNSAFE_URL_BYTES_TO_REMOVE\<close>: TAB, CR, LF\<close>
  "unsafe_char c = (c = 0x09 \<or> c = 0x0D \<or> c = 0x0A)"

definition is_ascii :: "int \<Rightarrow> bool" where
  "is_ascii c = (0 \<le> c \<and> c < 128)"

definition ascii_alpha :: "int \<Rightarrow> bool" where
  \<comment> \<open>\<^verbatim>\<open>c.isascii() and c.isalpha()\<close>\<close>
  "ascii_alpha c = ((97 \<le> c \<and> c \<le> 122) \<or> (65 \<le> c \<and> c \<le> 90))"

definition scheme_char :: "int \<Rightarrow> bool" where
  \<comment> \<open>\<^verbatim>\<open>scheme_chars\<close>: letters, digits and \<^verbatim>\<open>+-.\<close>\<close>
  "scheme_char c =
     ((97 \<le> c \<and> c \<le> 122) \<or> (65 \<le> c \<and> c \<le> 90) \<or> (48 \<le> c \<and> c \<le> 57)
      \<or> c = of_char CHR ''+'' \<or> c = of_char CHR ''-'' \<or> c = of_char CHR ''.'')"

definition uses_netloc :: "release \<Rightarrow> str list" where
  "uses_netloc r =
     map cps ['''', ''ftp'', ''http'', ''gopher'', ''nntp'', ''telnet'',
       ''imap'', ''wais'', ''file'', ''mms'', ''https'', ''shttp'',
       ''snews'', ''prospero'', ''rtsp'', ''rtsps'', ''rtspu'', ''rsync'',
       ''svn'', ''svn+ssh'', ''sftp'', ''nfs'', ''git'', ''git+ssh'',
       ''ws'', ''wss'']
     @ (case r of CPython_3_11 \<Rightarrow> [] | CPython_3_12 \<Rightarrow> [cps ''itms-services''])"

definition uses_params :: "str list" where
  "uses_params =
     map cps ['''', ''ftp'', ''hdl'', ''prospero'', ''http'', ''imap'',
       ''https'', ''shttp'', ''rtsp'', ''rtsps'', ''rtspu'', ''sip'',
       ''sips'', ''mms'', ''sftp'', ''tel'']"

record split_result =
  scheme :: str
  netloc :: str
  path :: str
  query :: str
  fragment :: str

record parse_result = split_result +
  params :: str

definition split_scheme :: "str \<Rightarrow> str \<times> str" where
  \<comment> \<open>\<^verbatim>\<open>i = url.find(':')\<close>; a scheme is taken when \<^verbatim>\<open>i > 0\<close>, the first character
      is an ASCII letter and \<^verbatim>\<open>url[:i]\<close> has scheme characters only; it is lowercased\<close>
  "split_scheme url =
     (case url of
        [] \<Rightarrow> ([], url)
      | c # _ \<Rightarrow>
          if of_char CHR '':'' \<in> set url \<and> c \<noteq> of_char CHR '':'' \<and> ascii_alpha c
             \<and> list_all scheme_char (before (of_char CHR '':'') url)
          then (lower_text (before (of_char CHR '':'') url), after (of_char CHR '':'') url)
          else ([], url))"

definition netloc_delim :: "int \<Rightarrow> bool" where
  "netloc_delim c = (c = of_char CHR ''/'' \<or> c = of_char CHR ''?'' \<or> c = of_char CHR ''#'')"

definition bracketed_host :: "str \<Rightarrow> str" where
  \<comment> \<open>\<^verbatim>\<open>netloc.partition('[')[2].partition(']')[0]\<close>\<close>
  "bracketed_host nl = before (of_char CHR '']'') (after (of_char CHR ''['') nl)"

definition check_bracketed_netloc :: "(str \<Rightarrow> bool) \<Rightarrow> str \<Rightarrow> bool" where
  \<comment> \<open>\<^verbatim>\<open>_check_bracketed_netloc\<close> of release 3.12; true when it returns, false when it
      raises\<close>
  "check_bracketed_netloc host_ok nl =
     (let hostname_and_port = after_last (of_char CHR ''@'') nl;
          before_bracket = before (of_char CHR ''['') hostname_and_port;
          have_open_br = (of_char CHR ''['' \<in> set hostname_and_port);
          bracketed = after (of_char CHR ''['') hostname_and_port
      in if have_open_br then
           (if before_bracket \<noteq> [] then False
            else
              (let hostname = before (of_char CHR '']'') bracketed;
                   port = after (of_char CHR '']'') bracketed
               in if port \<noteq> [] \<and> take 1 port \<noteq> cps '':'' then False
                  else host_ok hostname))
         else host_ok (before (of_char CHR '':'') hostname_and_port))"

definition brackets_accepted :: "urllib \<Rightarrow> str \<Rightarrow> bool" where
  \<comment> \<open>the check made on an authority that has both square brackets\<close>
  "brackets_accepted lib nl =
     (case release lib of
        CPython_3_11 \<Rightarrow> ip_literal lib (bracketed_host nl)
      | CPython_3_12 \<Rightarrow> check_bracketed_netloc (ip_literal lib) nl)"

definition checknetloc :: "(str \<Rightarrow> str) \<Rightarrow> str \<Rightarrow> bool" where
  \<comment> \<open>\<^verbatim>\<open>_checknetloc\<close>; true when it returns, false when it raises: an authority that
      is not ASCII is refused when normalisation changes it (its \<^verbatim>\<open>@:#?\<close> left out)
      into a text with one of \<^verbatim>\<open>/?#@:\<close>\<close>
  "checknetloc norm nl =
     (if nl = [] \<or> list_all is_ascii nl then True
      else
        (let n = filter (\<lambda>c. c \<notin> set (cps ''@:#?'')) nl;
             netloc2 = norm n
         in if n = netloc2 then True
            else \<not> list_ex (\<lambda>c. c \<in> set netloc2) (cps ''/?#@:'')))"

definition split_rest :: "str \<Rightarrow> str \<Rightarrow> str \<Rightarrow> split_result" where
  \<comment> \<open>the fragment is cut at the first \<^verbatim>\<open>#\<close>, then the query at the first \<^verbatim>\<open>?\<close>\<close>
  "split_rest sch nl url =
     (let (url, frag) =
            (if of_char CHR ''#'' \<in> set url
             then (before (of_char CHR ''#'') url, after (of_char CHR ''#'') url)
             else (url, []));
          (url, qry) =
            (if of_char CHR ''?'' \<in> set url
             then (before (of_char CHR ''?'') url, after (of_char CHR ''?'') url)
             else (url, []))
      in \<lparr>scheme = sch, netloc = nl, path = url, query = qry, fragment = frag\<rparr>)"

definition urlsplit :: "urllib \<Rightarrow> str \<Rightarrow> error + split_result" where
  \<comment> \<open>\<^verbatim>\<open>_checknetloc\<close> runs after the fragment and the query are cut, on the
      authority alone; every failure is a \<^verbatim>\<open>ValueError\<close>, so it is tested here with
      the bracket checks\<close>
  "urlsplit lib url0 =
     (let url = filter (\<lambda>c. \<not> unsafe_char c) (dropWhile c0_or_space url0);
          (sch, url) = split_scheme url
      in if take 2 url = cps ''//'' then
           (let nl = takeWhile (\<lambda>c. \<not> netloc_delim c) (drop 2 url);
                url = dropWhile (\<lambda>c. \<not> netloc_delim c) (drop 2 url)
            in if (of_char CHR ''['' \<in> set nl \<and> of_char CHR '']'' \<notin> set nl)
                  \<or> (of_char CHR '']'' \<in> set nl \<and> of_char CHR ''['' \<notin> set nl)
               then Inl ValueError
               else if of_char CHR ''['' \<in> set nl \<and> of_char CHR '']'' \<in> set nl
                       \<and> \<not> brackets_accepted lib nl
               then Inl ValueError
               else if \<not> checknetloc (nfkc lib) nl then Inl ValueError
               else Inr (split_rest sch nl url))
         else Inr (split_rest sch [] url))"

definition splitparams :: "str \<Rightarrow> str \<times> str" where
  \<comment> \<open>\<^verbatim>\<open>_splitparams\<close>: the first \<^verbatim>\<open>;\<close> behind the last \<^verbatim>\<open>/\<close>\<close>
  "splitparams url =
     (if of_char CHR ''/'' \<in> set url then
        (let seg = rev (takeWhile (\<lambda>c. c \<noteq> of_char CHR ''/'') (rev url));
             pre = take (length url - length seg) url
         in if of_char CHR '';'' \<in> set seg
            then (pre @ before (of_char CHR '';'') seg, after (of_char CHR '';'') seg)
            else (url, []))
      else (before (of_char CHR '';'') url, after (of_char CHR '';'') url))"

definition urlparse :: "urllib \<Rightarrow> str \<Rightarrow> error + parse_result" where
  "urlparse lib url =
     (case urlsplit lib url of
        Inl e \<Rightarrow> Inl e
      | Inr r \<Rightarrow>
          (let (u, p) =
                 (if scheme r \<in> set uses_params \<and> of_char CHR '';'' \<in> set (path r)
                  then splitparams (path r) else (path r, []))
           in Inr \<lparr>scheme = scheme r, netloc = netloc r, path = u, query = query r,
                    fragment = fragment r, params = p\<rparr>))"

definition writes_authority :: "urllib \<Rightarrow> split_result \<Rightarrow> bool" where
  \<comment> \<open>the condition under which \<^verbatim>\<open>urlunsplit\<close> writes \<^verbatim>\<open>//\<close> and the authority:
      \<^verbatim>\<open>netloc or (scheme and scheme in uses_netloc) or url[:2] == '//'\<close> in release 3.11,
      \<^verbatim>\<open>netloc or (scheme and scheme in uses_netloc and url[:2] != '//')\<close> in 3.12\<close>
  "writes_authority lib r =
     (case release lib of
        CPython_3_11 \<Rightarrow>
          netloc r \<noteq> [] \<or> (scheme r \<noteq> [] \<and> scheme r \<in> set (uses_netloc CPython_3_11))
          \<or> take 2 (path r) = cps ''//''
      | CPython_3_12 \<Rightarrow>
          netloc r \<noteq> [] \<or> (scheme r \<noteq> [] \<and> scheme r \<in> set (uses_netloc CPython_3_12)
                             \<and> take 2 (path r) \<noteq> cps ''//''))"

definition urlunsplit :: "urllib \<Rightarrow> split_result \<Rightarrow> str" where
  "urlunsplit lib r =
     (let url = path r;
          url = (if writes_authority lib r
                 then cps ''//'' @ netloc r
                        @ (if url \<noteq> [] \<and> take 1 url \<noteq> cps ''/'' then cps ''/'' @ url else url)
                 else url);
          url = (if scheme r \<noteq> [] then scheme r @ cps '':'' @ url else url);
          url = (if query r \<noteq> [] then url @ cps ''?'' @ query r else url);
          url = (if fragment r \<noteq> [] then url @ cps ''#'' @ fragment r else url)
      in url)"

definition urlunparse :: "urllib \<Rightarrow> parse_result \<Rightarrow> str" where
  "urlunparse lib p =
     urlunsplit lib \<lparr>scheme = scheme p, netloc = netloc p,
                 path = (if params p \<noteq> [] then path p @ cps '';'' @ params p else path p),
                 query = query p, fragment = fragment p\<rparr>"

subsection \<open>Percent-encoding\<close>

definition is_hex :: "int \<Rightarrow> bool" where
  "is_hex c = ((48 \<le> c \<and> c \<le> 57) \<or> (65 \<le> c \<and> c \<le> 70) \<or> (97 \<le> c \<and> c \<le> 102))"

definition hex_val :: "int \<Rightarrow> int" where
  "hex_val c = (if c \<le> 57 then c - 48 else if c \<le> 70 then c - 55 else c - 87)"

fun unquote_to_bytes :: "str \<Rightarrow> int list" where
  \<comment> \<open>on ASCII text: \<^verbatim>\<open>%\<close> with two hexadecimal digits is one byte, any other
      \<^verbatim>\<open>%\<close> stays, and every other character is its own byte\<close>
  "unquote_to_bytes (c # h1 # h2 # r) =
     (if c = of_char CHR ''%'' \<and> is_hex h1 \<and> is_hex h2
      then (hex_val h1 * 16 + hex_val h2) # unquote_to_bytes r
      else c # unquote_to_bytes (h1 # h2 # r))"
| "unquote_to_bytes (c # r) = c # unquote_to_bytes r"
| "unquote_to_bytes [] = []"

fun utf8_replace :: "int list \<Rightarrow> str" where
  "utf8_replace [] = []"
| "utf8_replace (b # bs) =
     (case utf8_next b bs of
        Decoded c k \<Rightarrow> c # utf8_replace (drop k bs)
      | Invalid k \<Rightarrow> 0xFFFD # utf8_replace (drop k bs)
      | Truncated \<Rightarrow> [0xFFFD])"

function unquote :: "str \<Rightarrow> str" where
  \<comment> \<open>\<^verbatim>\<open>unquote(s, 'utf-8', 'replace')\<close>: each maximal run of ASCII characters is
      percent-decoded to bytes and these are decoded; the other characters stay\<close>
  "unquote [] = []"
| "unquote (c # s) =
     (if is_ascii c
      then utf8_replace (unquote_to_bytes (c # takeWhile is_ascii s))
             @ unquote (dropWhile is_ascii s)
      else c # unquote s)"
  by pat_completeness auto
termination
  by (relation "measure length") (auto simp: le_imp_less_Suc length_dropWhile_le)

definition unquote_plus :: "str \<Rightarrow> str" where
  "unquote_plus s =
     unquote (map (\<lambda>c. if c = of_char CHR ''+'' then of_char CHR '' '' else c) s)"

definition encodable :: "int \<Rightarrow> bool" where
  \<comment> \<open>a code point that \<^verbatim>\<open>str.encode('utf-8')\<close> accepts: any but a surrogate\<close>
  "encodable c = ((0 \<le> c \<and> c < 0xD800) \<or> (0xE000 \<le> c \<and> c \<le> 0x10FFFF))"

definition utf8_encode_cp :: "int \<Rightarrow> int list" where
  "utf8_encode_cp c =
     (if c < 0x80 then [c]
      else if c < 0x800 then [192 + c div 64, 128 + c mod 64]
      else if c < 0x10000 then [224 + c div 4096, 128 + (c div 64) mod 64, 128 + c mod 64]
      else [240 + c div 262144, 128 + (c div 4096) mod 64, 128 + (c div 64) mod 64,
            128 + c mod 64])"

definition utf8_encode :: "str \<Rightarrow> int list" where
  "utf8_encode s = concat (map utf8_encode_cp s)"

definition always_safe :: "int \<Rightarrow> bool" where
  \<comment> \<open>letters, digits and \<^verbatim>\<open>_.-~\<close>\<close>
  "always_safe b =
     ((97 \<le> b \<and> b \<le> 122) \<or> (65 \<le> b \<and> b \<le> 90) \<or> (48 \<le> b \<and> b \<le> 57)
      \<or> b = 0x5F \<or> b = 0x2E \<or> b = 0x2D \<or> b = 0x7E)"

definition hex_digit :: "int \<Rightarrow> int" where
  \<comment> \<open>a digit of \<^verbatim>\<open>'%{:02X}'\<close>\<close>
  "hex_digit d = (if d < 10 then 48 + d else 55 + d)"

definition quote_byte :: "int list \<Rightarrow> int \<Rightarrow> str" where
  \<comment> \<open>a safe byte as its character, any other as \<^verbatim>\<open>'%{:02X}'\<close>\<close>
  "quote_byte safe b =
     (if always_safe b \<or> b \<in> set safe then [b]
      else [of_char CHR ''%'', hex_digit (b div 16), hex_digit (b mod 16)])"

definition quote :: "str \<Rightarrow> int list \<Rightarrow> error + str" where
  \<comment> \<open>\<^verbatim>\<open>quote(string, safe)\<close> for a \<^verbatim>\<open>str\<close>: encoded with \<^verbatim>\<open>'utf-8'\<close> and
      \<^verbatim>\<open>'strict'\<close>, then byte by byte\<close>
  "quote s safe =
     (if \<not> list_all encodable s then Inl UnicodeEncodeError
      else Inr (concat (map (quote_byte safe) (utf8_encode s))))"

definition quote_plus :: "str \<Rightarrow> error + str" where
  "quote_plus s =
     (if 32 \<notin> set s then quote s []
      else (case quote s [32] of
              Inl e \<Rightarrow> Inl e
            | Inr q \<Rightarrow>
                Inr (map (\<lambda>c. if c = of_char CHR '' '' then of_char CHR ''+'' else c) q)))"

subsection \<open>Query strings\<close>

fun split_on :: "int \<Rightarrow> str \<Rightarrow> str list" where
  \<comment> \<open>\<^verbatim>\<open>s.split(c)\<close>\<close>
  "split_on c [] = [[]]"
| "split_on c (x # xs) =
     (if x = c then [] # split_on c xs
      else (case split_on c xs of
              [] \<Rightarrow> [[x]]
            | p # ps \<Rightarrow> (x # p) # ps))"

fun join :: "str \<Rightarrow> str list \<Rightarrow> str" where
  \<comment> \<open>\<^verbatim>\<open>sep.join(l)\<close>\<close>
  "join sep [] = []"
| "join sep [x] = x"
| "join sep (x # y # l) = x @ sep @ join sep (y # l)"

definition parse_field :: "bool \<Rightarrow> str \<Rightarrow> (str \<times> str) list" where
  \<comment> \<open>one piece of \<^verbatim>\<open>qs.split('&')\<close>: skipped when empty, and when its value is empty
      and blank values are not kept\<close>
  "parse_field keep_blank_values name_value =
     (if name_value \<noteq> [] then
        (let name = before (of_char CHR ''='') name_value;
             val = after (of_char CHR ''='') name_value
         in if val \<noteq> [] \<or> keep_blank_values
            then [(unquote_plus name, unquote_plus val)] else [])
      else [])"

definition parse_qsl :: "bool \<Rightarrow> str \<Rightarrow> (str \<times> str) list" where
  \<comment> \<open>\<^verbatim>\<open>parse_qsl(qs, keep_blank_values)\<close> with the separator \<^verbatim>\<open>&\<close>\<close>
  "parse_qsl keep_blank_values qs =
     (if qs = [] then []
      else concat (map (parse_field keep_blank_values) (split_on (of_char CHR ''&'') qs)))"

text \<open>A \<^verbatim>\<open>dict\<close> keeps its keys in the order of their first insertion: an association
  list with each key once.\<close>

fun dict_append :: "('k \<times> 'v list) list \<Rightarrow> 'k \<Rightarrow> 'v \<Rightarrow> ('k \<times> 'v list) list" where
  \<comment> \<open>\<^verbatim>\<open>if name in d: d[name].append(value) else: d[name] = [value]\<close>\<close>
  "dict_append [] k v = [(k, [v])]"
| "dict_append ((k', vs) # d) k v =
     (if k' = k then (k', vs @ [v]) # d else (k', vs) # dict_append d k v)"

fun dict_set :: "('k \<times> 'v) list \<Rightarrow> 'k \<Rightarrow> 'v \<Rightarrow> ('k \<times> 'v) list" where
  \<comment> \<open>\<^verbatim>\<open>d[k] = v\<close>\<close>
  "dict_set [] k v = [(k, v)]"
| "dict_set ((k', v') # d) k v =
     (if k' = k then (k', v) # d else (k', v') # dict_set d k v)"

definition parse_qs :: "bool \<Rightarrow> str \<Rightarrow> (str \<times> str list) list" where
  "parse_qs keep_blank_values qs =
     foldl (\<lambda>d (name, val). dict_append d name val) [] (parse_qsl keep_blank_values qs)"

fun quote_values :: "str \<Rightarrow> str list \<Rightarrow> error + str list" where
  \<comment> \<open>\<^verbatim>\<open>for elt in v: l.append(k + '=' + quote_via(elt))\<close>\<close>
  "quote_values k [] = Inr []"
| "quote_values k (elt # v) =
     (case quote_plus elt of
        Inl e \<Rightarrow> Inl e
      | Inr q \<Rightarrow>
          (case quote_values k v of
             Inl e \<Rightarrow> Inl e
           | Inr l \<Rightarrow> Inr ((k @ cps ''='' @ q) # l)))"

fun urlencode_items :: "(str \<times> str list) list \<Rightarrow> error + str list" where
  "urlencode_items [] = Inr []"
| "urlencode_items ((k, v) # d) =
     (case quote_plus k of
        Inl e \<Rightarrow> Inl e
      | Inr qk \<Rightarrow>
          (case quote_values qk v of
             Inl e \<Rightarrow> Inl e
           | Inr l \<Rightarrow>
               (case urlencode_items d of
                  Inl e \<Rightarrow> Inl e
                | Inr l' \<Rightarrow> Inr (l @ l'))))"

definition urlencode :: "(str \<times> str list) list \<Rightarrow> error + str" where
  \<comment> \<open>\<^verbatim>\<open>urlencode(query, doseq=True)\<close> for a dict of lists of \<^verbatim>\<open>str\<close>\<close>
  "urlencode d =
     (case urlencode_items d of
        Inl e \<Rightarrow> Inl e
      | Inr l \<Rightarrow> Inr (join (cps ''&'') l))"

section \<open>Dropbox links and the public proxy\<close>

text \<open>
  The two functions that call the URL library take a \<^verbatim>\<open>str\<close> of any code points.
  \<^verbatim>\<open>url.lower()\<close> is \<^const>\<open>lower_text\<close>, which differs from \<^verbatim>\<open>str.lower\<close> only on
  cased letters above U+00FF whose lowercase form is a single code point above U+007F,
  so that the test for \<^verbatim>\<open>'dropbox.com'\<close> has the same answer.
\<close>

definition first_dl :: "(str \<times> str list) list \<Rightarrow> error + str" where
  \<comment> \<open>\<^verbatim>\<open>query_params.get('dl', ['0'])[0]\<close>\<close>
  "first_dl query_params =
     (case map_of query_params (cps ''dl'') of
        None \<Rightarrow> Inr (cps ''0'')
      | Some [] \<Rightarrow> Inl IndexError
      | Some (v # _) \<Rightarrow> Inr v)"

definition convert_dropbox_url :: "urllib \<Rightarrow> str \<Rightarrow> error + str \<times> bool" where
  "convert_dropbox_url lib url =
     (let url_lower = lower_text url in
      if \<not> sublist (cps ''dropbox.com'') url_lower then Inr (url, False)
      else
        (case urlparse lib url of
           Inl e \<Rightarrow> Inl e
         | Inr parsed \<Rightarrow>
             (let query_params = parse_qs False (query parsed) in
              case first_dl query_params of
                Inl e \<Rightarrow> Inl e
              | Inr dl \<Rightarrow>
                  if dl = cps ''1'' then Inr (url, False)
                  else
                    (case urlencode (dict_set query_params (cps ''dl'') [cps ''1'']) of
                       Inl e \<Rightarrow> Inl e
                     | Inr new_query \<Rightarrow>
                         Inr (urlunparse lib (parsed\<lparr>query := new_query\<rparr>), True)))))"


section \<open>Notions used in the proofs\<close>








definition body :: "parse_result \<Rightarrow> str" where
  \<comment> \<open>the path with its parameters, as \<^verbatim>\<open>urlunparse\<close> joins them\<close>
  "body p = (if params p \<noteq> [] then path p @ cps '';'' @ params p else path p)"

section \<open>Properties of the string functions\<close>

lemma lower_char_idem: "lower_char (lower_char c) = lower_char c"
  unfolding lower_char_def Let_def by (auto simp: of_char_of)

lemma lower_idem: "lower (lower s) = lower s"
  by (simp add: lower_def lower_char_idem)

lemma strip_last_not_space: "strip s \<noteq> [] \<Longrightarrow> \<not> is_space (last (strip s))"
proof -
  assume ne: "strip s \<noteq> []"
  let ?r = "dropWhile is_space (rev (dropWhile is_space s))"
  from ne have r: "?r \<noteq> []" by (simp add: strip_def)
  then have "\<not> is_space (hd ?r)" by (rule hd_dropWhile)
  moreover have "last (strip s) = hd ?r" using r by (simp add: strip_def last_rev)
  ultimately show ?thesis by simp
qed

lemma match_here_split:
  "match_here p s = Some r \<Longrightarrow> \<exists>m. s = m @ r \<and> list_all2 (\<lambda>cs c. c \<in> set cs) p m"
proof (induction p s rule: match_here.induct)
  case (1 s)
  then show ?case by simp
next
  case (2 cs p)
  then show ?case by simp
next
  case (3 cs p c s)
  then have c: "c \<in> set cs" and m: "match_here p s = Some r" by (auto split: if_splits)
  from 3(1)[OF c m] obtain m' where "s = m' @ r" "list_all2 (\<lambda>cs c. c \<in> set cs) p m'" by blast
  then have "c # s = (c # m') @ r \<and> list_all2 (\<lambda>cs c. c \<in> set cs) (cs # p) (c # m')"
    using c by simp
  then show ?case by blast
qed

lemma re_search_id_sound:
  "re_search_id p s = Some i \<Longrightarrow>
     \<exists>a m b. s = a @ m @ i @ b \<and> list_all2 (\<lambda>cs c. c \<in> set cs) p m
        \<and> i \<noteq> [] \<and> list_all id_char i \<and> (b = [] \<or> \<not> id_char (hd b))"
proof (induction s)
  case Nil
  then show ?case by simp
next
  case (Cons c s)
  show ?case
  proof (cases "\<exists>r. match_here p (c # s) = Some r \<and> takeWhile id_char r \<noteq> []")
    case True
    then obtain r where r: "match_here p (c # s) = Some r" "takeWhile id_char r \<noteq> []" by blast
    with Cons.prems have i: "i = takeWhile id_char r" by simp
    from match_here_split[OF r(1)] obtain m where
      m: "c # s = m @ r" "list_all2 (\<lambda>cs c. c \<in> set cs) p m" by blast
    have "r = i @ dropWhile id_char r" by (simp add: i)
    with m have "c # s = [] @ m @ i @ dropWhile id_char r" by simp
    moreover have "list_all id_char i"
      unfolding i list_all_iff by (auto dest: set_takeWhileD)
    moreover have "dropWhile id_char r = [] \<or> \<not> id_char (hd (dropWhile id_char r))"
      using hd_dropWhile[of id_char r] by blast
    ultimately show ?thesis using m(2) r(2) i by blast
  next
    case False
    with Cons.prems have "re_search_id p s = Some i"
      by (auto split: option.splits if_splits)
    from Cons.IH[OF this] obtain a m b where
      "s = a @ m @ i @ b" "list_all2 (\<lambda>cs c. c \<in> set cs) p m" "i \<noteq> []"
      "list_all id_char i" "b = [] \<or> \<not> id_char (hd b)" by blast
    then have "c # s = (c # a) @ m @ i @ b" by simp
    then show ?thesis
      using \<open>list_all2 (\<lambda>cs c. c \<in> set cs) p m\<close> \<open>i \<noteq> []\<close> \<open>list_all id_char i\<close>
        \<open>b = [] \<or> \<not> id_char (hd b)\<close> by blast
  qed
qed

lemma re_match_bare_id_strip:
  "re_match_bare_id (strip s) \<longleftrightarrow> strip s \<noteq> [] \<and> list_all id_char (strip s)"
proof -
  let ?t = "strip s"
  have nl: "is_space (CHR 0x0A)" by (simp add: is_space_def)
  have no_lf: "dropWhile id_char ?t \<noteq> [CHR 0x0A]"
  proof
    assume d: "dropWhile id_char ?t = [CHR 0x0A]"
    have "?t = takeWhile id_char ?t @ dropWhile id_char ?t" by simp
    then have t: "?t = takeWhile id_char ?t @ [CHR 0x0A]" using d by simp
    then have "?t \<noteq> []" by (metis snoc_eq_iff_butlast)
    moreover have "last ?t = CHR 0x0A" by (metis t last_snoc)
    ultimately show False using strip_last_not_space[of s] nl by simp
  qed
  show ?thesis
  proof (cases "list_all id_char ?t")
    case True
    then have tk: "takeWhile id_char ?t = ?t" and dw: "dropWhile id_char ?t = []"
      by (simp_all add: takeWhile_eq_all_conv list_all_iff)
    have "re_match_bare_id ?t \<longleftrightarrow> takeWhile id_char ?t \<noteq> []"
      by (simp add: re_match_bare_id_def dw)
    then show ?thesis using tk True by metis
  next
    case False
    then have "dropWhile id_char ?t \<noteq> []"
      by (simp add: dropWhile_eq_Nil_conv list_all_iff)
    then show ?thesis using False no_lf by (simp add: re_match_bare_id_def)
  qed
qed

text \<open>
  C10. After trimming, an input that contains neither \<^verbatim>\<open>http\<close> nor
  \<^verbatim>\<open>drive.google.com\<close> (in any letter case) is returned, trimmed, exactly when it is
  made of the characters a-z, A-Z, 0-9, underscore and hyphen only and is longer than
  10 characters, and \<^const>\<open>None\<close> is returned otherwise. An input that looks like a
  URL and matches none of the three patterns gives \<^const>\<open>None\<close>, not the input.
\<close>

theorem extract_gdrive_file_id_bare:
  "(\<not> sublist ''http'' (lower (strip s)) \<and> \<not> sublist ''drive.google.com'' (lower (strip s))
      \<longrightarrow> extract_gdrive_file_id s =
            (if list_all id_char (strip s) \<and> 10 < length (strip s) then Some (strip s) else None))
   \<and> ((sublist ''http'' (lower (strip s)) \<or> sublist ''drive.google.com'' (lower (strip s)))
        \<and> re_search_id re_file_d (strip s) = None
        \<and> re_search_id re_open_id (strip s) = None
        \<and> re_search_id re_any_id (strip s) = None
      \<longrightarrow> extract_gdrive_file_id s = None)"
proof (intro conjI impI)
  assume h: "\<not> sublist ''http'' (lower (strip s)) \<and> \<not> sublist ''drive.google.com'' (lower (strip s))"
  have "10 < length (strip s) \<Longrightarrow> strip s \<noteq> []" by auto
  then show "extract_gdrive_file_id s =
      (if list_all id_char (strip s) \<and> 10 < length (strip s) then Some (strip s) else None)"
    using h unfolding extract_gdrive_file_id_def Let_def
    by (auto simp: re_match_bare_id_strip)
next
  assume "(sublist ''http'' (lower (strip s)) \<or> sublist ''drive.google.com'' (lower (strip s)))
        \<and> re_search_id re_file_d (strip s) = None
        \<and> re_search_id re_open_id (strip s) = None
        \<and> re_search_id re_any_id (strip s) = None"
  then show "extract_gdrive_file_id s = None"
    unfolding extract_gdrive_file_id_def Let_def by auto
qed

theorem extract_gdrive_file_id_bare_witness:
  "extract_gdrive_file_id ''  1A2B3C_abc-def  '' = Some ''1A2B3C_abc-def''
   \<and> extract_gdrive_file_id ''1A2B3C'' = None
   \<and> extract_gdrive_file_id ''https://drive.google.com/drive/folders'' = None"
proof -
  have a: "\<not> sublist ''http'' (lower (strip ''  1A2B3C_abc-def  ''))
      \<and> \<not> sublist ''drive.google.com'' (lower (strip ''  1A2B3C_abc-def  ''))" by code_simp
  have a': "(if list_all id_char (strip ''  1A2B3C_abc-def  '') \<and> 10 < length (strip ''  1A2B3C_abc-def  '')
             then Some (strip ''  1A2B3C_abc-def  '') else None) = Some ''1A2B3C_abc-def''" by code_simp
  have b: "\<not> sublist ''http'' (lower (strip ''1A2B3C''))
      \<and> \<not> sublist ''drive.google.com'' (lower (strip ''1A2B3C''))" by code_simp
  have b': "(if list_all id_char (strip ''1A2B3C'') \<and> 10 < length (strip ''1A2B3C'')
             then Some (strip ''1A2B3C'') else None) = None" by code_simp
  have c: "(sublist ''http'' (lower (strip ''https://drive.google.com/drive/folders''))
        \<or> sublist ''drive.google.com'' (lower (strip ''https://drive.google.com/drive/folders'')))
        \<and> re_search_id re_file_d (strip ''https://drive.google.com/drive/folders'') = None
        \<and> re_search_id re_open_id (strip ''https://drive.google.com/drive/folders'') = None
        \<and> re_search_id re_any_id (strip ''https://drive.google.com/drive/folders'') = None" by code_simp
  show ?thesis
    using extract_gdrive_file_id_bare[of "''  1A2B3C_abc-def  ''"] a a'
          extract_gdrive_file_id_bare[of "''1A2B3C''"] b b'
          extract_gdrive_file_id_bare[of "''https://drive.google.com/drive/folders''"] c
    by presburger
qed




section \<open>Properties of the byte classifier\<close>

lemma first_line_takeWhile: "first_line t = takeWhile (\<lambda>c. c \<noteq> 10 \<and> c \<noteq> 13) t"
  unfolding first_line_def by (induction t) auto

text \<open>
  C8. A buffer shorter than 20 bytes is classified as unknown: the function returns
  \<^const>\<open>None\<close>, whatever the bytes are, as a value and without raising.
\<close>

theorem detect_short_buffer:
  "length file_bytes < 20 \<Longrightarrow> detect_file_type_from_bytes file_bytes = None"
  by (simp add: detect_file_type_from_bytes_def)

theorem detect_short_buffer_witness:
  "detect_file_type_from_bytes ''PAR1<html>'' = None"
proof -
  have "length ''PAR1<html>'' < 20" by simp
  then show ?thesis by (rule detect_short_buffer)
qed

text \<open>
  C3. For a buffer of at least 20 bytes: when its first 500 bytes, decoded with errors
  ignored, lowercased and trimmed, start with \<^verbatim>\<open><!doctype\<close> or \<^verbatim>\<open><html\<close> or
  contain \<^verbatim>\<open><html\<close> within their first 200 characters, the classifier returns
  \<^verbatim>\<open>html_error\<close>. No other check is consulted, so this holds whatever magic
  signatures or delimiters the buffer carries.
\<close>

theorem detect_html_first:
  "20 \<le> length file_bytes \<Longrightarrow> html_start (text_start file_bytes)
     \<Longrightarrow> detect_file_type_from_bytes file_bytes = Some ''html_error''"
  by (simp add: detect_file_type_from_bytes_def)

theorem detect_html_first_witness:
  "detect_file_type_from_bytes ''<!DOCTYPE html>\<newline>a,b,c,d,e\<newline>'' = Some ''html_error''
   \<and> detect_file_type_from_bytes ''PAR1 <HTML><body>DUCK</body></html>PAR1'' = Some ''html_error''
   \<and> detect_file_type_from_bytes '' SQLite format 3 <html>'' = Some ''html_error''"
proof -
  have a: "20 \<le> length ''<!DOCTYPE html>\<newline>a,b,c,d,e\<newline>''" by simp
  have a': "html_start (text_start ''<!DOCTYPE html>\<newline>a,b,c,d,e\<newline>'')" by code_simp
  have b: "20 \<le> length ''PAR1 <HTML><body>DUCK</body></html>PAR1''" by simp
  have b': "html_start (text_start ''PAR1 <HTML><body>DUCK</body></html>PAR1'')" by code_simp
  have c: "20 \<le> length '' SQLite format 3 <html>''" by simp
  have c': "html_start (text_start '' SQLite format 3 <html>'')" by code_simp
  show ?thesis
    using detect_html_first[OF a a'] detect_html_first[OF b b'] detect_html_first[OF c c']
    by simp
qed

text \<open>
  C4. A buffer that reaches the counting of delimiters (at least 20 bytes, not HTML, no
  magic signature, its first 2048 bytes valid UTF-8, not starting like JSON, with a line
  feed or carriage return in the sample) is classified from its first line, the text
  before the first line feed or carriage return: \<^verbatim>\<open>pipe\<close> with two or more pipes,
  else \<^verbatim>\<open>tsv\<close> with two or more tabs, else \<^verbatim>\<open>csv\<close> with two or more commas, else
  \<^verbatim>\<open>txt\<close>. A first line with exactly one comma and no pipe or tab is \<^verbatim>\<open>txt\<close>.
\<close>

theorem detect_delimiters:
  assumes "20 \<le> length file_bytes"
    and "\<not> html_start (text_start file_bytes)"
    and "take 4 file_bytes \<noteq> ''PAR1''"
    and "drop (length file_bytes - 4) file_bytes \<noteq> ''PAR1''"
    and "\<not> sublist ''DUCK'' (take 20 file_bytes)"
    and "\<not> sublist ''SQLite format 3'' (take 16 file_bytes)"
    and "decode_strict (take 2048 file_bytes) = Some t"
    and "\<not> json_start t"
    and "10 \<in> set t \<or> 13 \<in> set t"
    and "line = takeWhile (\<lambda>c. c \<noteq> 10 \<and> c \<noteq> 13) t"
  shows "detect_file_type_from_bytes file_bytes =
           Some (if 2 \<le> count_list line 0x7C then ''pipe''
                 else if 2 \<le> count_list line 9 then ''tsv''
                 else if 2 \<le> count_list line 0x2C then ''csv''
                 else ''txt'')
         \<and> (count_list line 0x2C = 1 \<and> count_list line 0x7C = 0 \<and> count_list line 9 = 0
              \<longrightarrow> detect_file_type_from_bytes file_bytes = Some ''txt'')"
proof -
  have fl: "first_line t = line"
    using assms(10) by (simp add: first_line_takeWhile)
  have "detect_file_type_from_bytes file_bytes =
           (if 2 \<le> count_list line 0x7C then Some ''pipe''
            else if 2 \<le> count_list line 9 then Some ''tsv''
            else if 2 \<le> count_list line 0x2C then Some ''csv''
            else Some ''txt'')"
    using assms(1-9) by (auto simp add: detect_file_type_from_bytes_def Let_def fl)
  then show ?thesis by simp
qed

theorem detect_delimiters_witness:
  "detect_file_type_from_bytes ''a,b,c\<newline>1,2,3\<newline>4,5,6\<newline>7,8,9\<newline>'' = Some ''csv''
   \<and> detect_file_type_from_bytes ''Hello, world of files\<newline>second line\<newline>'' = Some ''txt''"
proof -
  let ?a = "''a,b,c\<newline>1,2,3\<newline>4,5,6\<newline>7,8,9\<newline>''"
  let ?b = "''Hello, world of files\<newline>second line\<newline>''"
  have a1: "20 \<le> length ?a" by simp
  have a2: "\<not> html_start (text_start ?a)" by code_simp
  have a3: "take 4 ?a \<noteq> ''PAR1''" by simp
  have a4: "drop (length ?a - 4) ?a \<noteq> ''PAR1''" by simp
  have a5: "\<not> sublist ''DUCK'' (take 20 ?a)" by code_simp
  have a6: "\<not> sublist ''SQLite format 3'' (take 16 ?a)" by code_simp
  have a7: "decode_strict (take 2048 ?a) = Some (cps ?a)" by code_simp
  have a8: "\<not> json_start (cps ?a)" by code_simp
  have a9: "10 \<in> set (cps ?a) \<or> 13 \<in> set (cps ?a)" by code_simp
  have a10: "cps ''a,b,c'' = takeWhile (\<lambda>c. c \<noteq> 10 \<and> c \<noteq> 13) (cps ?a)" by code_simp
  have a11: "(if 2 \<le> count_list (cps ''a,b,c'') 0x7C then ''pipe''
                 else if 2 \<le> count_list (cps ''a,b,c'') 9 then ''tsv''
                 else if 2 \<le> count_list (cps ''a,b,c'') 0x2C then ''csv''
                 else ''txt'') = ''csv''" by code_simp
  have b1: "20 \<le> length ?b" by simp
  have b2: "\<not> html_start (text_start ?b)" by code_simp
  have b3: "take 4 ?b \<noteq> ''PAR1''" by simp
  have b4: "drop (length ?b - 4) ?b \<noteq> ''PAR1''" by simp
  have b5: "\<not> sublist ''DUCK'' (take 20 ?b)" by code_simp
  have b6: "\<not> sublist ''SQLite format 3'' (take 16 ?b)" by code_simp
  have b7: "decode_strict (take 2048 ?b) = Some (cps ?b)" by code_simp
  have b8: "\<not> json_start (cps ?b)" by code_simp
  have b9: "10 \<in> set (cps ?b) \<or> 13 \<in> set (cps ?b)" by code_simp
  have b10: "cps ''Hello, world of files'' = takeWhile (\<lambda>c. c \<noteq> 10 \<and> c \<noteq> 13) (cps ?b)"
    by code_simp
  have b11: "count_list (cps ''Hello, world of files'') 0x2C = 1
      \<and> count_list (cps ''Hello, world of files'') 0x7C = 0
      \<and> count_list (cps ''Hello, world of files'') 9 = 0" by code_simp
  from detect_delimiters[OF a1 a2 a3 a4 a5 a6 a7 a8 a9 a10] a11
  have "detect_file_type_from_bytes ?a = Some ''csv''" by simp
  moreover from detect_delimiters[OF b1 b2 b3 b4 b5 b6 b7 b8 b9 b10] b11
  have "detect_file_type_from_bytes ?b = Some ''txt''" by blast
  ultimately show ?thesis by simp
qed

text \<open>
  C7 (as amended). For a buffer of at least 20 bytes that is not HTML: \<^verbatim>\<open>parquet\<close>
  when the first or the last 4 bytes are \<^verbatim>\<open>PAR1\<close>; otherwise \<^verbatim>\<open>duckdb\<close> when the
  first 20 bytes contain \<^verbatim>\<open>DUCK\<close>, and \<^verbatim>\<open>duckdb\<close> as well when the first 16 bytes
  contain \<^verbatim>\<open>SQLite format 3\<close>. The checks run in this order, so the Parquet marker
  wins over the two others.
\<close>

theorem detect_magic_signatures:
  assumes "20 \<le> length file_bytes"
    and "\<not> html_start (text_start file_bytes)"
  shows "(take 4 file_bytes = ''PAR1'' \<or> drop (length file_bytes - 4) file_bytes = ''PAR1''
           \<longrightarrow> detect_file_type_from_bytes file_bytes = Some ''parquet'')
       \<and> (take 4 file_bytes \<noteq> ''PAR1'' \<and> drop (length file_bytes - 4) file_bytes \<noteq> ''PAR1''
            \<and> sublist ''DUCK'' (take 20 file_bytes)
           \<longrightarrow> detect_file_type_from_bytes file_bytes = Some ''duckdb'')
       \<and> (take 4 file_bytes \<noteq> ''PAR1'' \<and> drop (length file_bytes - 4) file_bytes \<noteq> ''PAR1''
            \<and> sublist ''SQLite format 3'' (take 16 file_bytes)
           \<longrightarrow> detect_file_type_from_bytes file_bytes = Some ''duckdb'')"
  using assms unfolding detect_file_type_from_bytes_def by (auto simp: not_less)

theorem detect_magic_signatures_witness:
  "detect_file_type_from_bytes (''PAR1'' @ replicate 92 (CHR 0x00) @ ''PAR1'') = Some ''parquet''
   \<and> detect_file_type_from_bytes (''DUCK'' @ replicate 20 (CHR 0x00)) = Some ''duckdb''
   \<and> detect_file_type_from_bytes (''SQLite format 3'' @ replicate 20 (CHR 0x00)) = Some ''duckdb''"
proof -
  let ?p = "''PAR1'' @ replicate 92 (CHR 0x00) @ ''PAR1''"
  let ?d = "''DUCK'' @ replicate 20 (CHR 0x00)"
  let ?s = "''SQLite format 3'' @ replicate 20 (CHR 0x00)"
  have p1: "20 \<le> length ?p" by simp
  have p2: "\<not> html_start (text_start ?p)" by code_simp
  have p3: "take 4 ?p = ''PAR1'' \<or> drop (length ?p - 4) ?p = ''PAR1''" by simp
  have d1: "20 \<le> length ?d" by simp
  have d2: "\<not> html_start (text_start ?d)" by code_simp
  have d3: "take 4 ?d \<noteq> ''PAR1'' \<and> drop (length ?d - 4) ?d \<noteq> ''PAR1''
            \<and> sublist ''DUCK'' (take 20 ?d)" by code_simp
  have s1: "20 \<le> length ?s" by simp
  have s2: "\<not> html_start (text_start ?s)" by code_simp
  have s3: "take 4 ?s \<noteq> ''PAR1'' \<and> drop (length ?s - 4) ?s \<noteq> ''PAR1''
            \<and> sublist ''SQLite format 3'' (take 16 ?s)" by code_simp
  show ?thesis
    using detect_magic_signatures[OF p1 p2] p3
          detect_magic_signatures[OF d1 d2] d3
          detect_magic_signatures[OF s1 s2] s3
    by blast
qed

theorem detect_duck_with_parquet_tail_counterexample:
  "20 \<le> length ''DUCK------------PAR1''
   \<and> \<not> html_start (text_start ''DUCK------------PAR1'')
   \<and> sublist ''DUCK'' (take 20 ''DUCK------------PAR1'')
   \<and> detect_file_type_from_bytes ''DUCK------------PAR1'' = Some ''parquet''
   \<and> detect_file_type_from_bytes ''DUCK------------PAR1'' \<noteq> Some ''duckdb''"
  by code_simp

section \<open>Properties of the link resolver\<close>

text \<open>
  C1 (as amended). With \<^verbatim>\<open>is_private\<close> set, \<^const>\<open>needs_proxy\<close> answers true exactly
  for a GitHub URL, which the caller routes through the private proxy, and false
  otherwise. With \<^verbatim>\<open>is_private\<close> clear it answers true, which the caller routes
  through the public proxy, exactly when the lowercased URL contains \<^verbatim>\<open>github.com\<close>
  and, anywhere in it, \<^verbatim>\<open>/releases/\<close>, or names a Google Drive host, or contains
  \<^verbatim>\<open>dropbox.com\<close>; in every other case it answers false.
\<close>

theorem needs_proxy_table:
  "needs_proxy u True = is_github_url u
   \<and> needs_proxy u False =
       ((sublist ''github.com'' (lower u) \<and> sublist ''/releases/'' (lower u))
        \<or> sublist ''drive.google.com'' (lower u)
        \<or> sublist ''drive.usercontent.google.com'' (lower u)
        \<or> sublist ''dropbox.com'' (lower u))
   \<and> fetch_route u True = (if is_github_url u then PrivateProxy else NoProxy)
   \<and> fetch_route u False = (if needs_proxy u False then PublicProxy else NoProxy)"
  by (simp add: needs_proxy_def fetch_route_def is_github_url_def Let_def lower_idem)

theorem needs_proxy_table_witness:
  "fetch_route ''https://github.com/a/b'' True = PrivateProxy
   \<and> fetch_route ''https://example.com/data.csv'' True = NoProxy
   \<and> fetch_route ''https://github.com/a/releases/download/v1/x.zip'' False = PublicProxy
   \<and> fetch_route ''https://drive.google.com/file/d/abc/view'' False = PublicProxy
   \<and> fetch_route ''https://example.com/data.csv'' False = NoProxy"
proof -
  have a: "is_github_url ''https://github.com/a/b''" by code_simp
  have b: "\<not> is_github_url ''https://example.com/data.csv''" by code_simp
  have c: "needs_proxy ''https://github.com/a/releases/download/v1/x.zip'' False" by code_simp
  have d: "needs_proxy ''https://drive.google.com/file/d/abc/view'' False" by code_simp
  have e: "\<not> needs_proxy ''https://example.com/data.csv'' False" by code_simp
  show ?thesis
    using needs_proxy_table[of "''https://github.com/a/b''"] a
      needs_proxy_table[of "''https://example.com/data.csv''"] b e
      needs_proxy_table[of "''https://github.com/a/releases/download/v1/x.zip''"] c
      needs_proxy_table[of "''https://drive.google.com/file/d/abc/view''"] d
    by presburger
qed

theorem needs_proxy_releases_in_query_counterexample:
  "urlparse (urllib_of CPython_3_11) (cps ''https://github.com/a/b?next=/releases/'') =
     Inr \<lparr>scheme = cps ''https'', netloc = cps ''github.com'', path = cps ''/a/b'',
          query = cps ''next=/releases/'', fragment = [], params = []\<rparr>
   \<and> urlparse (urllib_of CPython_3_12) (cps ''https://github.com/a/b?next=/releases/'') =
     Inr \<lparr>scheme = cps ''https'', netloc = cps ''github.com'', path = cps ''/a/b'',
          query = cps ''next=/releases/'', fragment = [], params = []\<rparr>
   \<and> \<not> sublist ''/releases/'' ''/a/b''
   \<and> \<not> sublist ''drive.google.com'' (lower ''https://github.com/a/b?next=/releases/'')
   \<and> \<not> sublist ''drive.usercontent.google.com'' (lower ''https://github.com/a/b?next=/releases/'')
   \<and> \<not> sublist ''dropbox.com'' (lower ''https://github.com/a/b?next=/releases/'')
   \<and> needs_proxy ''https://github.com/a/b?next=/releases/'' False = True
   \<and> fetch_route ''https://github.com/a/b?next=/releases/'' False = PublicProxy"
  by code_simp

section \<open>Properties of the URL library\<close>

lemma cps_simps [simp]: "cps [] = []" "cps (c # s) = of_char c # cps s"
  by (simp_all add: cps_def)




lemma utf8_next_length:
  "utf8_next b bs = Decoded c k \<Longrightarrow> k \<le> length bs"
  by (auto split: if_splits list.splits)















subsection \<open>quoting and unquoting\<close>












lemma quote_Inl: "quote s safe = Inl e \<longleftrightarrow> e = UnicodeEncodeError \<and> \<not> list_all encodable s"
  by (auto simp: quote_def)















subsection \<open>split and join\<close>





subsection \<open>dicts\<close>






subsection \<open>one field of an encoded query\<close>










subsection \<open>what parse_qs returns\<close>




























lemma map_of_dict_set_other: "k' \<noteq> k \<Longrightarrow> map_of (dict_set d k v) k' = map_of d k'"
  by (induction d) auto










subsection \<open>splitting and joining a URL\<close>








































subsection \<open>the rewritten query\<close>












subsection \<open>when the library raises\<close>











section \<open>Properties of the Dropbox converter and of the resolver as a whole\<close>





text \<open>
  C6. On a Dropbox URL whose query has a parameter with an empty value,
  \<^const>\<open>convert_dropbox_url\<close> returns a URL without that parameter: \<^verbatim>\<open>parse_qs\<close> is
  called with its default \<^verbatim>\<open>keep_blank_values=False\<close>, and the query is rebuilt from
  what it returns. A value that is not UTF-8 comes back as the encoding of U+FFFD.
\<close>

theorem convert_dropbox_url_drops_blank_value:
  "convert_dropbox_url (urllib_of CPython_3_11)
       (cps ''https://www.dropbox.com/s/abc/f.csv?a=&dl=0'')
     = Inr (cps ''https://www.dropbox.com/s/abc/f.csv?dl=1'', True)
   \<and> convert_dropbox_url (urllib_of CPython_3_12)
       (cps ''https://www.dropbox.com/s/abc/f.csv?a=&dl=0'')
     = Inr (cps ''https://www.dropbox.com/s/abc/f.csv?dl=1'', True)
   \<and> parse_qsl True (cps ''a=&dl=0'') = [(cps ''a'', []), (cps ''dl'', cps ''0'')]
   \<and> parse_qsl True (cps ''dl=1'') = [(cps ''dl'', cps ''1'')]
   \<and> convert_dropbox_url (urllib_of CPython_3_11)
       (cps ''https://www.dropbox.com/s/abc/f.csv?x=%FF&dl=0'')
     = Inr (cps ''https://www.dropbox.com/s/abc/f.csv?x=%EF%BF%BD&dl=1'', True)"
  by code_simp




end
